theory Spec2Isabelle
  imports Main "HOL-Library.Word"
begin

section \<open>Common Go vocabulary\<close>

text \<open>
  Go functions of the repository return \<open>(value, error)\<close>. A function that returns either
  \<open>(nil, err)\<close> or \<open>(v, nil)\<close> is a function into \<open>error + 'a\<close> (\<open>Inl\<close> the error); a
  function that returns only an \<open>error\<close> is a function into \<open>error option\<close> (\<open>None\<close> is
  \<open>nil\<close>). Mutated receivers, collections and captured variables are passed in and
  returned. A panic is the \<open>Panic\<close> outcome: the explicit \<open>panic(...)\<close> of \<open>IsTerminal\<close>, and
  a call through a \<open>nil\<close> index reader or index record pointer.

  Message-typed fields that the code dereferences without a nil check
  (\<open>jobPtr.Job.ID\<close>, \<open>jobPtr.Pipeline.Name\<close>, \<open>task.Range.Lower\<close>, \<open>fr.idx.File.Parts\<close>)
  are modelled as present.
\<close>

type_synonym bytes = "8 word list"

datatype JobState =
    JOB_STARTING
  | JOB_RUNNING
  | JOB_FAILURE
  | JOB_SUCCESS
  | JOB_KILLED
  | JOB_EGRESSING
  | JOB_UNRECOGNIZED int

datatype PipelineState =
    PIPELINE_RUNNING
  | PIPELINE_RESTARTING
  | PIPELINE_FAILURE
  | PIPELINE_PAUSED
  | PIPELINE_STANDBY
  | PIPELINE_CRASHING
  | PIPELINE_OTHER int

text \<open>
  The error values the modelled code constructs itself, and \<open>External\<close> for the errors
  handed up from collaborators (stores, queues, codecs).
\<close>

datatype error =
    ReservedName string
  | TerminalState string JobState JobState
  | PipelineTransitionError string "PipelineState list" PipelineState PipelineState
  | NoResultSet
  | ErrNotFound string
  | MismatchedMessageType string string
  | InvalidTypeUrl string
  | IntegrityError string
  | External string

datatype 'a outcome = Panic string | Return 'a


section \<open>chunk.proto\<close>

datatype CompressionAlgo = NONE | GZIP_BEST_SPEED

datatype EncryptionAlgo = CHACHA20

text \<open>The number each enumerator is declared with.\<close>

fun CompressionAlgo_number :: "CompressionAlgo \<Rightarrow> int" where
  "CompressionAlgo_number NONE = 0"
| "CompressionAlgo_number GZIP_BEST_SPEED = 1"

fun EncryptionAlgo_number :: "EncryptionAlgo \<Rightarrow> int" where
  "EncryptionAlgo_number CHACHA20 = 0"

text \<open>The enumerators in declaration order.\<close>

definition CompressionAlgo_values :: "CompressionAlgo list" where
  "CompressionAlgo_values = [NONE, GZIP_BEST_SPEED]"

definition EncryptionAlgo_values :: "EncryptionAlgo list" where
  "EncryptionAlgo_values = [CHACHA20]"

text \<open>
  In proto3 a field that is absent on the wire reads as the zero value; for an enum field
  that is the enumerator numbered 0.
\<close>

definition enum_default :: "('a \<Rightarrow> int) \<Rightarrow> 'a list \<Rightarrow> 'a option" where
  "enum_default number values = find (\<lambda>v. number v = 0) values"

text \<open>
  The messages \<open>Ref\<close> and \<open>DataRef\<close>. The field \<open>id\<close> of \<open>Ref\<close> is \<open>chunk_id\<close> here. The
  \<open>int64\<close> fields are integers: the files modelled here do no arithmetic on them.
\<close>

record Ref =
  chunk_id :: bytes
  size_bytes :: int
  edge :: bool
  dek :: bytes
  encryption_algo :: EncryptionAlgo
  compression_algo :: CompressionAlgo

record DataRef =
  ref :: Ref
  hash :: string
  offset_bytes :: int
  size_bytes :: int


section \<open>ppsutil/util.go\<close>

record Timestamp =
  seconds :: int

record Job =
  ID :: string

record Pipeline =
  Name :: string

record EtcdPipelineInfo =
  State :: PipelineState
  Reason :: string
  JobCounts :: "(JobState \<rightharpoonup> 32 word) option"
  LastJobState :: JobState

record EtcdJobInfo =
  Job :: Job
  Pipeline :: Pipeline
  State :: JobState
  Reason :: string
  Started :: "Timestamp option"
  Finished :: "Timestamp option"

text \<open>
  Modelled from the spec: a collection of the metadata store (package \<open>collection\<close>, whose
  code is not among the sources), "a key-value store" of versioned records. \<open>rows\<close> holds
  the records; \<open>put_error\<close> names the keys whose write the store refuses, so that the error
  branch after each \<open>Put\<close> is a branch of the model.
\<close>

record 'v collection =
  rows :: "string \<rightharpoonup> 'v"
  put_error :: "string \<Rightarrow> error option"

text \<open>
  Modelled from the spec: \<open>ReadWriteCollection.Get\<close> reads the record stored under a key
  and fails when there is none.
\<close>

definition col_Get :: "'v collection \<Rightarrow> string \<Rightarrow> error + 'v" where
  "col_Get c key = (case rows c key of None \<Rightarrow> Inl (ErrNotFound key) | Some v \<Rightarrow> Inr v)"

text \<open>
  Modelled from the spec: \<open>ReadWriteCollection.Put\<close> stores a record under a key, unless
  the store refuses the write.
\<close>

definition col_Put :: "'v collection \<Rightarrow> string \<Rightarrow> 'v \<Rightarrow> error option \<times> 'v collection" where
  "col_Put c key v =
     (case put_error c key of
        Some err \<Rightarrow> (Some err, c)
      | None \<Rightarrow> (None, c\<lparr>rows := (rows c)(key \<mapsto> v)\<rparr>))"

text \<open>
  Modelled from the spec: \<open>col.NewSTM\<close> runs its body as one transaction on the store: the
  writes of a body that returns an error are dropped, the writes of a body that returns
  \<open>nil\<close> are committed.
\<close>

definition NewSTM :: "('c \<Rightarrow> error option \<times> 'c) \<Rightarrow> 'c \<Rightarrow> error option \<times> 'c" where
  "NewSTM body c = (case body c of (Some err, _) \<Rightarrow> (Some err, c) | (None, c') \<Rightarrow> (None, c'))"

text \<open>The loop of \<open>SetPipelineState\<close> that looks for the current state in \<open>from\<close>.\<close>

fun isInFromState :: "PipelineState list \<Rightarrow> PipelineState \<Rightarrow> bool" where
  "isInFromState [] current = False"
| "isInFromState (fromState # rest) current =
     (if current = fromState then True else isInFromState rest current)"

text \<open>The body that \<open>SetPipelineState\<close> hands to the transaction.\<close>

definition SetPipelineState_body ::
  "string \<Rightarrow> PipelineState list \<Rightarrow> PipelineState \<Rightarrow> string \<Rightarrow>
   EtcdPipelineInfo collection \<Rightarrow> error option \<times> EtcdPipelineInfo collection" where
  "SetPipelineState_body pipeline from to reason pipelines =
     (case col_Get pipelines pipeline of
        Inl err \<Rightarrow> (Some err, pipelines)
      | Inr pipelinePtr \<Rightarrow>
          if EtcdPipelineInfo.State pipelinePtr = PIPELINE_FAILURE then (None, pipelines)
          else if EtcdPipelineInfo.State pipelinePtr = PIPELINE_STANDBY \<and> to = PIPELINE_CRASHING
            then (None, pipelines)
          else if length from > 0 \<and> \<not> isInFromState from (EtcdPipelineInfo.State pipelinePtr)
                  \<and> EtcdPipelineInfo.State pipelinePtr \<noteq> to
            then (Some (PipelineTransitionError pipeline from to (EtcdPipelineInfo.State pipelinePtr)),
                  pipelines)
          else col_Put pipelines pipeline
                 (pipelinePtr\<lparr>EtcdPipelineInfo.State := to, EtcdPipelineInfo.Reason := reason\<rparr>))"

definition SetPipelineState ::
  "EtcdPipelineInfo collection \<Rightarrow> string \<Rightarrow> PipelineState list \<Rightarrow> PipelineState \<Rightarrow> string \<Rightarrow>
   error option \<times> EtcdPipelineInfo collection" where
  "SetPipelineState pipelinesCollection pipeline from to reason =
     NewSTM (SetPipelineState_body pipeline from to reason) pipelinesCollection"

fun IsTerminal :: "JobState \<Rightarrow> bool outcome" where
  "IsTerminal JOB_SUCCESS = Return True"
| "IsTerminal JOB_FAILURE = Return True"
| "IsTerminal JOB_KILLED = Return True"
| "IsTerminal JOB_STARTING = Return False"
| "IsTerminal JOB_RUNNING = Return False"
| "IsTerminal JOB_EGRESSING = Return False"
| "IsTerminal (JOB_UNRECOGNIZED n) = Panic ''unrecognized job state''"

text \<open>
  \<open>pipelinePtr.JobCounts[k]\<close>: reading a key that a Go map lacks gives the zero value. The
  counters are \<open>int32\<close>, so \<open>++\<close> and \<open>--\<close> wrap.
\<close>

definition count_of :: "(JobState \<rightharpoonup> 32 word) \<Rightarrow> JobState \<Rightarrow> 32 word" where
  "count_of m k = (case m k of None \<Rightarrow> 0 | Some n \<Rightarrow> n)"

definition bump_JobCounts ::
  "(JobState \<rightharpoonup> 32 word) option \<Rightarrow> JobState \<Rightarrow> JobState \<Rightarrow> (JobState \<rightharpoonup> 32 word)" where
  "bump_JobCounts counts old new =
     (let m0 = (case counts of None \<Rightarrow> Map.empty | Some m \<Rightarrow> m);
          m1 = (if count_of m0 old \<noteq> 0 then m0(old \<mapsto> count_of m0 old - 1) else m0)
      in m1(new \<mapsto> count_of m1 new + 1))"

text \<open>
  The second half of \<open>UpdateJobState\<close> ("Update job info"). \<open>now\<close> is what
  \<open>types.TimestampProto(time.Now())\<close> returns; on its error the field is assigned \<open>nil\<close>.
\<close>

definition stamp_job ::
  "EtcdJobInfo \<Rightarrow> JobState \<Rightarrow> error + Timestamp \<Rightarrow> (error option \<times> EtcdJobInfo) outcome" where
  "stamp_job jobPtr state now =
     (let ts = (case now of Inl _ \<Rightarrow> None | Inr t \<Rightarrow> Some t);
          err = (case now of Inl e \<Rightarrow> Some e | Inr _ \<Rightarrow> None)
      in if state = JOB_STARTING then Return (err, jobPtr\<lparr>Started := ts\<rparr>)
         else (case IsTerminal state of
                 Panic msg \<Rightarrow> Panic msg
               | Return True \<Rightarrow> Return (err, jobPtr\<lparr>Finished := ts\<rparr>)
               | Return False \<Rightarrow> Return (None, jobPtr)))"

text \<open>
  \<open>UpdateJobState\<close> returns its error together with the two collections and the job record
  behind \<open>jobPtr\<close> as it leaves them.
\<close>

definition UpdateJobState ::
  "EtcdPipelineInfo collection \<Rightarrow> EtcdJobInfo collection \<Rightarrow> EtcdJobInfo \<Rightarrow> JobState \<Rightarrow> string \<Rightarrow>
   error + Timestamp \<Rightarrow>
   (error option \<times> EtcdPipelineInfo collection \<times> EtcdJobInfo collection \<times> EtcdJobInfo) outcome" where
  "UpdateJobState pipelines jobs jobPtr state reason now =
     (case IsTerminal (EtcdJobInfo.State jobPtr) of
        Panic msg \<Rightarrow> Panic msg
      | Return True \<Rightarrow>
          Return (Some (TerminalState (Job.ID (Job jobPtr)) state (EtcdJobInfo.State jobPtr)),
                  pipelines, jobs, jobPtr)
      | Return False \<Rightarrow>
          (case col_Get pipelines (Pipeline.Name (Pipeline jobPtr)) of
             Inl err \<Rightarrow> Return (Some err, pipelines, jobs, jobPtr)
           | Inr pipelinePtr \<Rightarrow>
               (let pipelinePtr' = pipelinePtr
                      \<lparr>JobCounts := Some (bump_JobCounts (JobCounts pipelinePtr)
                                            (EtcdJobInfo.State jobPtr) state),
                       LastJobState := state\<rparr>
                in case col_Put pipelines (Pipeline.Name (Pipeline jobPtr)) pipelinePtr' of
                     (Some err, pipelines') \<Rightarrow> Return (Some err, pipelines', jobs, jobPtr)
                   | (None, pipelines') \<Rightarrow>
                       (case stamp_job jobPtr state now of
                          Panic msg \<Rightarrow> Panic msg
                        | Return (Some err, jobPtr') \<Rightarrow> Return (Some err, pipelines', jobs, jobPtr')
                        | Return (None, jobPtr') \<Rightarrow>
                            (let jobPtr'' = jobPtr'\<lparr>EtcdJobInfo.State := state,
                                                     EtcdJobInfo.Reason := reason\<rparr>
                             in case col_Put jobs (Job.ID (Job jobPtr'')) jobPtr'' of
                                  (err, jobs') \<Rightarrow> Return (err, pipelines', jobs', jobPtr''))))))"


section \<open>pfs/server: the API server\<close>

record Repo =
  Name :: string

record Commit =
  Repo :: Repo
  ID :: string

record CreateRepoRequest =
  Repo :: "Repo option"
  Description :: string
  Update :: bool

record AddFilesetRequest =
  Commit :: Commit
  FilesetId :: string

record RenewFilesetRequest =
  FilesetId :: string
  TtlSeconds :: "64 word"

text \<open>
  The driver's operations, \<open>fileset.ParseID\<close> and the constant \<open>fileSetsRepo\<close> are defined
  outside the files modelled here: each is a parameter, named as the code names it. A
  driver operation takes the driver's state \<open>'st\<close> and returns its error and the state it
  leaves.
\<close>

definition CreateRepoInTransaction ::
  "string \<Rightarrow> (Repo option \<Rightarrow> string \<Rightarrow> bool \<Rightarrow> 'st \<Rightarrow> error option \<times> 'st) \<Rightarrow>
   CreateRepoRequest \<Rightarrow> 'st \<Rightarrow> error option \<times> 'st" where
  "CreateRepoInTransaction fileSetsRepo driver_createRepo request txnCtx =
     (if (case CreateRepoRequest.Repo request of
            None \<Rightarrow> False
          | Some repo \<Rightarrow> Repo.Name repo = fileSetsRepo)
      then (Some (ReservedName fileSetsRepo), txnCtx)
      else driver_createRepo (CreateRepoRequest.Repo request) (Description request)
             (Update request) txnCtx)"

definition AddFileset ::
  "(string \<Rightarrow> error + 'id) \<Rightarrow> (Commit \<Rightarrow> 'id \<Rightarrow> 'st \<Rightarrow> error option \<times> 'st) \<Rightarrow>
   AddFilesetRequest \<Rightarrow> 'st \<Rightarrow> (error + unit) \<times> 'st" where
  "AddFileset ParseID driver_addFileset req st =
     (case ParseID (AddFilesetRequest.FilesetId req) of
        Inl err \<Rightarrow> (Inl err, st)
      | Inr fsid \<Rightarrow>
          (case driver_addFileset (Commit req) fsid st of
             (Some err, st') \<Rightarrow> (Inl err, st')
           | (None, st') \<Rightarrow> (Inr (), st')))"

text \<open>\<open>time.Duration(req.TtlSeconds) * time.Second\<close>, in 64-bit arithmetic.\<close>

definition ttl_of_seconds :: "64 word \<Rightarrow> 64 word" where
  "ttl_of_seconds s = s * 1000000000"

definition RenewFileset ::
  "(string \<Rightarrow> error + 'id) \<Rightarrow> ('id \<Rightarrow> 64 word \<Rightarrow> 'st \<Rightarrow> error option \<times> 'st) \<Rightarrow>
   RenewFilesetRequest \<Rightarrow> 'st \<Rightarrow> (error + unit) \<times> 'st" where
  "RenewFileset ParseID driver_renewFileset req st =
     (case ParseID (RenewFilesetRequest.FilesetId req) of
        Inl err \<Rightarrow> (Inl err, st)
      | Inr fsid \<Rightarrow>
          (case driver_renewFileset fsid (ttl_of_seconds (TtlSeconds req)) st of
             (Some err, st') \<Rightarrow> (Inl err, st')
           | (None, st') \<Rightarrow> (Inr (), st')))"


section \<open>pfs/server: distributed compaction\<close>

record Any =
  TypeUrl :: string
  Value :: bytes

record PathRange =
  Lower :: string
  Upper :: string

record CompactionTask =
  Inputs :: "string list"
  Range :: PathRange

record CompactionTaskResult =
  Id :: string

text \<open>The compactor's own task type, \<open>fileset.CompactionTask\<close>, over fileset IDs \<open>'id\<close>.\<close>

record index_PathRange =
  Lower :: string
  Upper :: string

record 'id fileset_CompactionTask =
  Inputs :: "'id list"
  PathRange :: index_PathRange

text \<open>
  What the protobuf library knows about one message type: its registered name
  (\<open>proto.MessageName\<close>) and its codec (\<open>proto.Marshal\<close>, \<open>proto.Unmarshal\<close>). The
  library is a parameter of the code below.
\<close>

record 'm proto =
  MessageName :: string
  Marshal :: "'m \<Rightarrow> error + bytes"
  Unmarshal :: "bytes \<Rightarrow> error + 'm"

text \<open>
  Modelled from the spec: the discriminator of a type-tagged envelope
  (\<open>types.AnyMessageName\<close>) is the text of \<open>TypeUrl\<close> after its last \<open>/\<close>; a \<open>TypeUrl\<close>
  without \<open>/\<close> is refused.
\<close>

definition AnyMessageName :: "Any \<Rightarrow> error + string" where
  "AnyMessageName any =
     (if CHR ''/'' \<in> set (TypeUrl any)
      then Inr (rev (takeWhile (\<lambda>c. c \<noteq> CHR ''/'') (rev (TypeUrl any))))
      else Inl (InvalidTypeUrl (TypeUrl any)))"

text \<open>
  Modelled from the spec: \<open>types.UnmarshalAny\<close>, the decoder of the type-tagged envelope
  ("a tagged union with a type discriminator and binary payload, decoded by a registry
  keyed on the discriminator"). An envelope whose discriminator is not the target's name
  is refused, otherwise the payload is decoded.
\<close>

definition UnmarshalAny :: "'m proto \<Rightarrow> Any \<Rightarrow> error + 'm" where
  "UnmarshalAny pb any =
     (case AnyMessageName any of
        Inl err \<Rightarrow> Inl err
      | Inr aname \<Rightarrow>
          if aname \<noteq> MessageName pb then Inl (MismatchedMessageType aname (MessageName pb))
          else Unmarshal pb (Value any))"

definition serializeCompactionTask :: "CompactionTask proto \<Rightarrow> CompactionTask \<Rightarrow> error + Any" where
  "serializeCompactionTask pb task =
     (case Marshal pb task of
        Inl err \<Rightarrow> Inl err
      | Inr data \<Rightarrow> Inr \<lparr>TypeUrl = ''/'' @ MessageName pb, Value = data\<rparr>)"

definition deserializeCompactionTask :: "CompactionTask proto \<Rightarrow> Any \<Rightarrow> error + CompactionTask" where
  "deserializeCompactionTask pb taskAny = UnmarshalAny pb taskAny"

definition serializeCompactionResult ::
  "CompactionTaskResult proto \<Rightarrow> CompactionTaskResult \<Rightarrow> error + Any" where
  "serializeCompactionResult pb res =
     (case Marshal pb res of
        Inl err \<Rightarrow> Inl err
      | Inr data \<Rightarrow> Inr \<lparr>TypeUrl = ''/'' @ MessageName pb, Value = data\<rparr>)"

definition deserializeCompactionResult ::
  "CompactionTaskResult proto \<Rightarrow> Any \<Rightarrow> error + CompactionTaskResult" where
  "deserializeCompactionResult pb any = UnmarshalAny pb any"


subsection \<open>The work queue\<close>

record Task =
  Data :: Any

text \<open>
  Modelled from the spec: \<open>work.TaskInfo\<close>, what the master learns about one subtask
  ("subtasks report success or any one reports failure"): \<open>Failure\<close> is set when the
  subtask reported failure, \<open>Result\<close> is the result payload the worker attached, if any.
\<close>

record TaskInfo =
  Failure :: "error option"
  Result :: "Any option"

text \<open>
  Modelled from the spec: \<open>work.Master\<close>. \<open>reports\<close> is the worker pool as the master sees
  it: the subtask reports that come back for a list of dispatched tasks, in the order
  they arrive.
\<close>

record Master =
  reports :: "Task list \<Rightarrow> TaskInfo list"

text \<open>
  Modelled from the spec: \<open>work.TaskQueue\<close>, the queue on which a master is created for
  each new task.
\<close>

record TaskQueue =
  queue_master :: Master

text \<open>
  Modelled from the spec: the fan-in of \<open>Master.RunSubtasks\<close> ("the master blocks until
  all dispatched subtasks report success or any one reports failure (fail-fast)"). The
  reports are taken in order; a reported failure ends the wait with that error, any
  other report goes to the completion callback, whose error ends the wait as well.
\<close>

fun collect_reports ::
  "TaskInfo list \<Rightarrow> (TaskInfo \<Rightarrow> 's \<Rightarrow> error option \<times> 's) \<Rightarrow> 's \<Rightarrow> error option \<times> 's" where
  "collect_reports [] collectFunc s = (None, s)"
| "collect_reports (taskInfo # rest) collectFunc s =
     (case Failure taskInfo of
        Some err \<Rightarrow> (Some err, s)
      | None \<Rightarrow>
          (case collectFunc taskInfo s of
             (Some err, s') \<Rightarrow> (Some err, s')
           | (None, s') \<Rightarrow> collect_reports rest collectFunc s'))"

text \<open>
  Modelled from the spec: \<open>Master.RunSubtasks\<close> dispatches the subtasks to the worker pool
  and collects the reports that come back.
\<close>

definition RunSubtasks ::
  "Master \<Rightarrow> Task list \<Rightarrow> (TaskInfo \<Rightarrow> 's \<Rightarrow> error option \<times> 's) \<Rightarrow> 's \<Rightarrow> error option \<times> 's" where
  "RunSubtasks master subtasks collectFunc s =
     collect_reports (reports master subtasks) collectFunc s"

text \<open>
  Modelled from the spec: \<open>TaskQueue.RunTaskBlock\<close> runs the callback with the master of a
  new task and returns the callback's error.
\<close>

definition RunTaskBlock ::
  "TaskQueue \<Rightarrow> (Master \<Rightarrow> 's \<Rightarrow> error option \<times> 's) \<Rightarrow> 's \<Rightarrow> error option \<times> 's" where
  "RunTaskBlock queue cb s = cb (queue_master queue) s"

subsection \<open>The compactors of the storage layer\<close>

text \<open>
  Modelled from the spec: the storage operations behind the compactors. \<open>shard\<close> is the
  partition of a merge into path-range-bounded subtasks for a maximal fan-in, \<open>compose\<close>
  publishes the fileset made of the subtask outputs ("subtask outputs are concatenated
  by the master into the final merged fileset").
\<close>

record 'id storage =
  shard :: "nat \<Rightarrow> 'id list \<Rightarrow> 'id fileset_CompactionTask list"
  compose :: "'id list \<Rightarrow> error + 'id"

text \<open>
  Modelled from the spec: \<open>DistributedCompactor.Compact\<close> ("a master splits a compaction
  into path-range-bounded subtasks, dispatches them to a worker pool over a task queue,
  and merges the streamed-back partial results"; "sub-task failure propagates up and
  fails the whole compaction"). The result is the Go pair \<open>(id, err)\<close>.
\<close>

definition DistributedCompactor_Compact ::
  "'id storage \<Rightarrow> nat \<Rightarrow> ('id fileset_CompactionTask list \<Rightarrow> error + 'id list) \<Rightarrow>
   'id list \<Rightarrow> int \<Rightarrow> 'id option \<times> error option" where
  "DistributedCompactor_Compact s maxFanIn workerFunc ids ttl =
     (case workerFunc (shard s maxFanIn ids) of
        Inl err \<Rightarrow> (None, Some err)
      | Inr results \<Rightarrow>
          (case compose s results of
             Inl err \<Rightarrow> (None, Some err)
           | Inr id' \<Rightarrow> (Some id', None)))"

text \<open>
  Modelled from the spec: \<open>Storage.CompactLevelBased\<close> hands the filesets to merge to the
  compaction callback and returns what the callback returns ("merging them into a single
  fileset one level up").
\<close>

definition CompactLevelBased ::
  "'id storage \<Rightarrow> 'id list \<Rightarrow> int \<Rightarrow> ('id list \<Rightarrow> int \<Rightarrow> 'id option \<times> error option) \<Rightarrow>
   'id option \<times> error option" where
  "CompactLevelBased s ids ttl compact = compact ids ttl"

subsection \<open>driver.compact\<close>

text \<open>
  The environment of the driver: the protobuf library for the two messages, the fileset
  ID parser and printer, the storage, the task queue and the configured fan-in.
\<close>

record 'id driver =
  taskProto :: "CompactionTask proto"
  resultProto :: "CompactionTaskResult proto"
  ParseID :: "string \<Rightarrow> error + 'id"
  HexString :: "'id \<Rightarrow> string"
  storage :: "'id storage"
  compactionQueue :: TaskQueue
  StorageCompactionMaxFanIn :: nat
  defaultTTL :: int

text \<open>The first loop of \<open>workerFunc\<close>: one serialized work task per compaction task.\<close>

fun workTasks_of :: "'id driver \<Rightarrow> 'id fileset_CompactionTask list \<Rightarrow> error + Task list" where
  "workTasks_of d [] = Inr []"
| "workTasks_of d (task # tasks) =
     (case serializeCompactionTask (taskProto d)
             \<lparr>CompactionTask.Inputs = map (HexString d) (fileset_CompactionTask.Inputs task),
              Range = \<lparr>PathRange.Lower = index_PathRange.Lower (PathRange task),
                       PathRange.Upper = index_PathRange.Upper (PathRange task)\<rparr>\<rparr> of
        Inl err \<Rightarrow> Inl err
      | Inr any \<Rightarrow>
          (case workTasks_of d tasks of
             Inl err \<Rightarrow> Inl err
           | Inr workTasks \<Rightarrow> Inr (\<lparr>Data = any\<rparr> # workTasks)))"

text \<open>The completion callback handed to \<open>RunSubtasks\<close>; its state is \<open>results\<close>.\<close>

definition collect_result :: "'id driver \<Rightarrow> TaskInfo \<Rightarrow> 'id list \<Rightarrow> error option \<times> 'id list" where
  "collect_result d taskInfo results =
     (case Result taskInfo of
        None \<Rightarrow> (Some NoResultSet, results)
      | Some any \<Rightarrow>
          (case deserializeCompactionResult (resultProto d) any of
             Inl err \<Rightarrow> (Some err, results)
           | Inr res \<Rightarrow>
               (case ParseID d (Id res) of
                  Inl err \<Rightarrow> (Some err, results)
                | Inr id' \<Rightarrow> (None, results @ [id']))))"

definition workerFunc ::
  "'id driver \<Rightarrow> Master \<Rightarrow> 'id fileset_CompactionTask list \<Rightarrow> error + 'id list" where
  "workerFunc d master tasks =
     (case workTasks_of d tasks of
        Inl err \<Rightarrow> Inl err
      | Inr workTasks \<Rightarrow>
          (case RunSubtasks master workTasks (collect_result d) [] of
             (Some err, _) \<Rightarrow> Inl err
           | (None, results) \<Rightarrow> Inr results))"

text \<open>
  The callback that \<open>compact\<close> hands to \<open>CompactLevelBased\<close>. The state of the task block
  is the captured variable \<open>id\<close>, \<open>nil\<close> at first.
\<close>

definition compact_callback :: "'id driver \<Rightarrow> 'id list \<Rightarrow> int \<Rightarrow> 'id option \<times> error option" where
  "compact_callback d ids ttl =
     (case RunTaskBlock (compactionQueue d)
             (\<lambda>master _.
                case DistributedCompactor_Compact (storage d) (StorageCompactionMaxFanIn d)
                       (workerFunc d master) ids ttl of
                  (id', err) \<Rightarrow> (err, id'))
             None of
        (Some err, _) \<Rightarrow> (None, Some err)
      | (None, id') \<Rightarrow> (id', None))"

definition compact :: "'id driver \<Rightarrow> 'id list \<Rightarrow> 'id option \<times> error option" where
  "compact d ids = CompactLevelBased (storage d) ids (defaultTTL d) (compact_callback d)"

text \<open>
  The subtask reports of a run of \<open>compact\<close> on \<open>ids\<close>: the reports that come back for
  the work tasks it dispatches (none are dispatched when a task cannot be serialized).
\<close>

definition subtask_reports :: "'id driver \<Rightarrow> 'id list \<Rightarrow> TaskInfo list" where
  "subtask_reports d ids =
     (case workTasks_of d (shard (storage d) (StorageCompactionMaxFanIn d) ids) of
        Inl _ \<Rightarrow> []
      | Inr workTasks \<Rightarrow> reports (queue_master (compactionQueue d)) workTasks)"

subsection \<open>driver.compactionWorker\<close>

text \<open>The loop of the worker that parses the task's input IDs.\<close>

fun parse_inputs :: "(string \<Rightarrow> error + 'id) \<Rightarrow> string list \<Rightarrow> 'id list \<Rightarrow> error + 'id list" where
  "parse_inputs parse [] ids = Inr ids"
| "parse_inputs parse (input # inputs) ids =
     (case parse input of
        Inl err \<Rightarrow> Inl err
      | Inr id' \<Rightarrow> parse_inputs parse inputs (ids @ [id']))"

text \<open>
  The function that \<open>compactionWorker\<close> runs on each subtask. \<open>storage_Compact\<close> is
  \<open>d.storage.Compact\<close> with the range option, on the storage state \<open>'st\<close>.
\<close>

definition compactionWorker_task ::
  "'id driver \<Rightarrow> ('id list \<Rightarrow> int \<Rightarrow> index_PathRange \<Rightarrow> 'st \<Rightarrow> (error + 'id) \<times> 'st) \<Rightarrow>
   Task \<Rightarrow> 'st \<Rightarrow> (error + Any) \<times> 'st" where
  "compactionWorker_task d storage_Compact subtask st =
     (case deserializeCompactionTask (taskProto d) (Data subtask) of
        Inl err \<Rightarrow> (Inl err, st)
      | Inr task \<Rightarrow>
          (case parse_inputs (ParseID d) (CompactionTask.Inputs task) [] of
             Inl err \<Rightarrow> (Inl err, st)
           | Inr ids \<Rightarrow>
               (let pathRange = \<lparr>index_PathRange.Lower = PathRange.Lower (Range task),
                                 index_PathRange.Upper = PathRange.Upper (Range task)\<rparr>
                in case storage_Compact ids (defaultTTL d) pathRange st of
                     (Inl err, st') \<Rightarrow> (Inl err, st')
                   | (Inr id', st') \<Rightarrow>
                       (serializeCompactionResult (resultProto d) \<lparr>Id = HexString d id'\<rparr>, st'))))"


section \<open>fileset/reader.go\<close>

text \<open>
  Modelled from the spec: the index record (package \<open>index\<close>), which "maps a file path to
  an ordered sequence of DataRefs plus per-tag metadata": a file is a list of tagged
  parts, each with its data references.
\<close>

record Part =
  Tag :: string
  DataRefs :: "DataRef list"

record File =
  Parts :: "Part list"

record Index =
  Path :: string
  File :: File

subsection \<open>Pointers to index records\<close>

text \<open>
  \<open>*index.Index\<close> values are addresses into a store of index records, so that two
  pointers to one record can be told from two pointers to equal records. \<open>fresh\<close> is the
  next address the allocator hands out. A cell holds a whole record: \<open>proto.Clone\<close>
  copies a message with everything it refers to, so the copy of a cell shares nothing
  with the original.
\<close>

record heap =
  cells :: "nat \<rightharpoonup> Index"
  fresh :: nat

definition alloc :: "heap \<Rightarrow> Index option \<Rightarrow> nat \<times> heap" where
  "alloc h v = (fresh h, h\<lparr>cells := (cells h)(fresh h := v), fresh := Suc (fresh h)\<rparr>)"

definition proto_Clone :: "heap \<Rightarrow> nat \<Rightarrow> nat \<times> heap" where
  "proto_Clone h p = alloc h (cells h p)"

text \<open>A caller's assignment through a pointer it holds.\<close>

definition mutate :: "heap \<Rightarrow> nat \<Rightarrow> Index \<Rightarrow> heap" where
  "mutate h p v = h\<lparr>cells := (cells h)(p \<mapsto> v)\<rparr>"

subsection \<open>The chunk store\<close>

text \<open>
  Modelled from the spec: the chunk storage (package \<open>chunk\<close>), a content-addressed store
  of immutable chunks, here from chunk ID to the chunk's bytes.
\<close>

type_synonym chunk_Storage = "bytes \<rightharpoonup> bytes"

text \<open>
  Modelled from the spec: reading one data reference from the chunk storage gives the
  bytes of its range in its chunk; "missing/corrupt chunk on read is a fatal integrity
  error", and so is a range outside its chunk (a \<open>DataRef\<close> has \<open>offset_bytes + size_bytes\<close>
  at most the chunk's size).
\<close>

definition read_DataRef :: "chunk_Storage \<Rightarrow> DataRef \<Rightarrow> error + bytes" where
  "read_DataRef chunks dataRef =
     (case chunks (chunk_id (ref dataRef)) of
        None \<Rightarrow> Inl (IntegrityError ''missing chunk'')
      | Some data \<Rightarrow>
          if 0 \<le> offset_bytes dataRef \<and> 0 \<le> DataRef.size_bytes dataRef
               \<and> offset_bytes dataRef + DataRef.size_bytes dataRef \<le> int (length data)
          then Inr (take (nat (DataRef.size_bytes dataRef)) (drop (nat (offset_bytes dataRef)) data))
          else Inl (IntegrityError ''range outside chunk''))"

text \<open>
  Modelled from the spec: \<open>chunk.Reader.Get\<close>, the reader made by \<open>chunks.NewReader\<close> over a
  list of data references, which "fetches the requested chunk ranges in the order given,
  producing exactly the requested bytes". The \<open>io.Writer\<close> is the bytes written to it so
  far; the reader stops at the first range it cannot read.
\<close>

fun chunk_Reader_Get :: "chunk_Storage \<Rightarrow> DataRef list \<Rightarrow> bytes \<Rightarrow> error option \<times> bytes" where
  "chunk_Reader_Get chunks [] w = (None, w)"
| "chunk_Reader_Get chunks (dataRef # dataRefs) w =
     (case read_DataRef chunks dataRef of
        Inl err \<Rightarrow> (Some err, w)
      | Inr data \<Rightarrow> chunk_Reader_Get chunks dataRefs (w @ data))"

text \<open>
  Modelled from the spec: the loop of \<open>getDataRefs\<close>, which appends the data references
  of each part to those collected so far.
\<close>

fun getDataRefs_loop :: "Part list \<Rightarrow> DataRef list \<Rightarrow> DataRef list" where
  "getDataRefs_loop [] dataRefs = dataRefs"
| "getDataRefs_loop (part # parts) dataRefs = getDataRefs_loop parts (dataRefs @ DataRefs part)"

text \<open>
  Modelled from the spec: \<open>getDataRefs\<close> collects the data references of the parts of an
  index entry, part after part ("an ordered sequence of DataRefs").
\<close>

definition getDataRefs :: "Part list \<Rightarrow> DataRef list" where
  "getDataRefs parts = getDataRefs_loop parts []"

subsection \<open>The index reader\<close>

text \<open>
  Modelled from the spec: \<open>index.Reader\<close> is the sequence of entries it yields, in path
  order.
\<close>

record index_Reader =
  entries :: "Index list"

text \<open>
  Modelled from the spec: \<open>index.Reader.Iterate\<close> "produces a forward-only sequence of
  index entries; stops and propagates error if the callback returns error". Each entry
  is handed to the callback as a pointer to a record of its own.
\<close>

fun index_Iterate ::
  "Index list \<Rightarrow> (nat \<Rightarrow> heap \<times> 's \<Rightarrow> error option \<times> heap \<times> 's) \<Rightarrow> heap \<times> 's \<Rightarrow>
   error option \<times> heap \<times> 's" where
  "index_Iterate [] cb hs = (None, hs)"
| "index_Iterate (entry # rest) cb hs =
     (case alloc (fst hs) (Some entry) of
        (p, h') \<Rightarrow>
          (case cb p (h', snd hs) of
             (Some err, hs') \<Rightarrow> (Some err, hs')
           | (None, hs') \<Rightarrow> index_Iterate rest cb hs'))"

subsection \<open>Reader and FileReader\<close>

text \<open>
  Modelled from the spec: the stored metadata of a fileset, "a pair of indexes: an
  additive index and a deletive index"; \<open>'top\<close> is what the store keeps for an index.
\<close>

record 'top Metadata =
  Additive :: 'top
  Deletive :: 'top

record ('top, 'opt) Reader =
  store :: "string \<Rightarrow> error + 'top Metadata"
  chunks :: chunk_Storage
  path :: string
  indexOpts :: "'opt list"
  additive :: "index_Reader option"
  deletive :: "index_Reader option"

record FileReader =
  chunks :: chunk_Storage
  idx :: nat

definition newReader ::
  "(string \<Rightarrow> error + 'top Metadata) \<Rightarrow> chunk_Storage \<Rightarrow> string \<Rightarrow> 'opt list \<Rightarrow> ('top, 'opt) Reader" where
  "newReader st ch p opts =
     \<lparr>store = st, Reader.chunks = ch, path = p, indexOpts = opts,
      additive = None, deletive = None\<rparr>"

text \<open>
  \<open>index_NewReader\<close> is \<open>index.NewReader\<close>: the index reader over a stored top-level index
  under the reader's options. It is a parameter.
\<close>

definition Reader_setup ::
  "(chunk_Storage \<Rightarrow> 'top \<Rightarrow> 'opt list \<Rightarrow> index_Reader) \<Rightarrow> ('top, 'opt) Reader \<Rightarrow>
   error option \<times> ('top, 'opt) Reader" where
  "Reader_setup index_NewReader r =
     (if additive r = None
      then (case store r (path r) of
              Inl err \<Rightarrow> (Some err, r)
            | Inr md \<Rightarrow>
                (None, r\<lparr>additive := Some (index_NewReader (Reader.chunks r) (Additive md) (indexOpts r)),
                         deletive := Some (index_NewReader (Reader.chunks r) (Deletive md) (indexOpts r))\<rparr>))
      else (None, r))"

definition newFileReader :: "chunk_Storage \<Rightarrow> nat \<Rightarrow> heap \<Rightarrow> FileReader \<times> heap" where
  "newFileReader ch p h =
     (case proto_Clone h p of (q, h') \<Rightarrow> (\<lparr>FileReader.chunks = ch, idx = q\<rparr>, h'))"

text \<open>
  \<open>Iterate\<close> returns its error with the reader, the heap and the callback's state as it
  leaves them. Calling \<open>Iterate\<close> on a \<open>nil\<close> index reader is a panic.
\<close>

definition Iterate ::
  "(chunk_Storage \<Rightarrow> 'top \<Rightarrow> 'opt list \<Rightarrow> index_Reader) \<Rightarrow> ('top, 'opt) Reader \<Rightarrow>
   (FileReader \<Rightarrow> heap \<times> 's \<Rightarrow> error option \<times> heap \<times> 's) \<Rightarrow> bool list \<Rightarrow> heap \<times> 's \<Rightarrow>
   (error option \<times> ('top, 'opt) Reader \<times> heap \<times> 's) outcome" where
  "Iterate index_NewReader r cb deletive_flag hs =
     (case Reader_setup index_NewReader r of
        (Some err, r') \<Rightarrow> Return (Some err, r', hs)
      | (None, r') \<Rightarrow>
          (let each = (\<lambda>p hs1. case newFileReader (Reader.chunks r') p (fst hs1) of
                                  (fr, h') \<Rightarrow> cb fr (h', snd hs1))
           in if length deletive_flag > 0 \<and> deletive_flag ! 0
              then (case deletive r' of
                      None \<Rightarrow> Panic ''nil pointer dereference''
                    | Some ir \<Rightarrow>
                        (case index_Iterate (entries ir) each hs of
                           (err, hs') \<Rightarrow> Return (err, r', hs')))
              else (case additive r' of
                      None \<Rightarrow> Panic ''nil pointer dereference''
                    | Some ir \<Rightarrow>
                        (case index_Iterate (entries ir) each hs of
                           (err, hs') \<Rightarrow> Return (err, r', hs')))))"

definition FileReader_Index :: "FileReader \<Rightarrow> heap \<Rightarrow> nat \<times> heap" where
  "FileReader_Index fr h = proto_Clone h (idx fr)"

definition Content :: "FileReader \<Rightarrow> heap \<Rightarrow> bytes \<Rightarrow> (error option \<times> bytes) outcome" where
  "Content fr h w =
     (case cells h (idx fr) of
        None \<Rightarrow> Panic ''nil pointer dereference''
      | Some i \<Rightarrow>
          Return (chunk_Reader_Get (FileReader.chunks fr) (getDataRefs (Parts (File i))) w))"


subsection \<open>Reading the referenced bytes\<close>

text \<open>
  The bytes a data reference denotes, and when the chunk store holds them: the chunk is
  present and the range lies within it.
\<close>

definition readable :: "chunk_Storage \<Rightarrow> DataRef \<Rightarrow> bool" where
  "readable ch dataRef =
     (case ch (chunk_id (ref dataRef)) of
        None \<Rightarrow> False
      | Some data \<Rightarrow>
          0 \<le> offset_bytes dataRef \<and> 0 \<le> DataRef.size_bytes dataRef
          \<and> offset_bytes dataRef + DataRef.size_bytes dataRef \<le> int (length data))"

definition referenced_bytes :: "chunk_Storage \<Rightarrow> DataRef \<Rightarrow> bytes" where
  "referenced_bytes ch dataRef =
     (case ch (chunk_id (ref dataRef)) of
        None \<Rightarrow> []
      | Some data \<Rightarrow>
          take (nat (DataRef.size_bytes dataRef)) (drop (nat (offset_bytes dataRef)) data))"

section \<open>Sample values\<close>

text \<open>
  Concrete values on which the properties below are exercised: a protobuf library for the
  two messages (the task codec knows two tasks, the result codec writes one byte per
  character), a driver over fileset IDs \<open>1\<close> and \<open>2\<close> whose worker pool reports every
  subtask without a result, a chunk store with one chunk, and two index records.
\<close>

definition sample_taskProto :: "CompactionTask proto" where
  "sample_taskProto =
     \<lparr>MessageName = ''pfs.CompactionTask'',
      Marshal = (\<lambda>t. if CompactionTask.Inputs t = [''aa'', ''zz''] then Inr [1]
                      else if CompactionTask.Inputs t = [''aa'', ''a''] then Inr [2]
                      else Inl (External ''codec'')),
      Unmarshal = (\<lambda>b. if b = [1]
                        then Inr \<lparr>CompactionTask.Inputs = [''aa'', ''zz''],
                                  Range = \<lparr>PathRange.Lower = ''/a'', PathRange.Upper = ''/m''\<rparr>\<rparr>
                        else if b = [2]
                        then Inr \<lparr>CompactionTask.Inputs = [''aa'', ''a''],
                                  Range = \<lparr>PathRange.Lower = ''/a'', PathRange.Upper = ''/m''\<rparr>\<rparr>
                        else Inl (External ''codec''))\<rparr>"

definition sample_resultProto :: "CompactionTaskResult proto" where
  "sample_resultProto =
     \<lparr>MessageName = ''pfs.CompactionTaskResult'',
      Marshal = (\<lambda>r. Inr (map (\<lambda>c. if c = CHR ''f'' then 1 else 0) (Id r))),
      Unmarshal = (\<lambda>b. Inr \<lparr>Id = map (\<lambda>w. if w = 1 then CHR ''f'' else CHR ''0'') b\<rparr>)\<rparr>"

definition sample_driver :: "nat driver" where
  "sample_driver =
     \<lparr>taskProto = sample_taskProto,
      resultProto = sample_resultProto,
      ParseID = (\<lambda>s. if s = ''aa'' then Inr 1 else if s = ''a'' then Inr 2
                      else Inl (External ''invalid fileset id'')),
      HexString = (\<lambda>i. if i = 1 then ''aa'' else ''a''),
      storage = \<lparr>shard = (\<lambda>n ids. [\<lparr>fileset_CompactionTask.Inputs = ids,
                                        PathRange = \<lparr>index_PathRange.Lower = ''/a'',
                                                     index_PathRange.Upper = ''/m''\<rparr>\<rparr>]),
                  compose = (\<lambda>ids. Inr 3)\<rparr>,
      compactionQueue =
        \<lparr>queue_master = \<lparr>reports = (\<lambda>tasks. map (\<lambda>t. \<lparr>Failure = None, Result = None\<rparr>) tasks)\<rparr>\<rparr>,
      StorageCompactionMaxFanIn = 10,
      defaultTTL = 600\<rparr>"

definition sample_chunks :: chunk_Storage where
  "sample_chunks = [[1] \<mapsto> [10, 11, 12, 13]]"

definition sample_ref :: Ref where
  "sample_ref = \<lparr>chunk_id = [1], Ref.size_bytes = 4, edge = False, dek = [],
                 encryption_algo = CHACHA20, compression_algo = NONE\<rparr>"

definition sample_file :: Index where
  "sample_file =
     \<lparr>Path = ''/x'',
      File = \<lparr>Parts = [\<lparr>Tag = ''t'',
                         DataRefs = [\<lparr>ref = sample_ref, hash = ''h'', offset_bytes = 1,
                                      DataRef.size_bytes = 2\<rparr>,
                                     \<lparr>ref = sample_ref, hash = ''h'', offset_bytes = 0,
                                      DataRef.size_bytes = 1\<rparr>]\<rparr>]\<rparr>\<rparr>"

definition sample_tombstone :: Index where
  "sample_tombstone = \<lparr>Path = ''/y'', File = \<lparr>Parts = []\<rparr>\<rparr>"

definition sample_Reader :: "(Index list, unit) Reader" where
  "sample_Reader =
     newReader (\<lambda>p. Inr \<lparr>Additive = [sample_file], Deletive = [sample_tombstone]\<rparr>)
       sample_chunks ''fs1'' []"


section \<open>Properties\<close>

subsection \<open>chunk.proto, ppsutil and the API server\<close>

text \<open>
  C7: in the chunk wire format the default (zero) value of \<open>EncryptionAlgo\<close> is
  \<open>CHACHA20\<close>, the default of \<open>CompressionAlgo\<close> is \<open>NONE\<close>, and \<open>CompressionAlgo\<close> has
  exactly the two values \<open>NONE\<close> and \<open>GZIP_BEST_SPEED\<close>, numbered 0 and 1.
\<close>
theorem chunk_enum_defaults:
  "enum_default EncryptionAlgo_number EncryptionAlgo_values = Some CHACHA20
   \<and> enum_default CompressionAlgo_number CompressionAlgo_values = Some NONE
   \<and> CompressionAlgo_values = [NONE, GZIP_BEST_SPEED]
   \<and> set CompressionAlgo_values = UNIV
   \<and> map CompressionAlgo_number CompressionAlgo_values = [0, 1]"
proof -
  have "(UNIV :: CompressionAlgo set) = {NONE, GZIP_BEST_SPEED}"
    using CompressionAlgo.exhaust by auto
  then show ?thesis
    by (simp add: enum_default_def EncryptionAlgo_values_def CompressionAlgo_values_def)
qed

text \<open>
  C8: \<open>PIPELINE_FAILURE\<close> is absorbing under \<open>SetPipelineState\<close>. For a pipeline whose
  stored state is \<open>PIPELINE_FAILURE\<close>, \<open>SetPipelineState\<close> returns no error and leaves the
  collection, hence the stored state and reason, as it was, for every \<open>from\<close>, every
  target state and every reason.
\<close>
theorem SetPipelineState_FAILURE_absorbing:
  assumes "rows pipelines pipeline = Some info"
    and "EtcdPipelineInfo.State info = PIPELINE_FAILURE"
  shows "SetPipelineState pipelines pipeline from to reason = (None, pipelines)"
  using assms
  by (simp add: SetPipelineState_def NewSTM_def SetPipelineState_body_def col_Get_def)

theorem SetPipelineState_FAILURE_absorbing_witness:
  "SetPipelineState
     \<lparr>rows = [''edges'' \<mapsto> \<lparr>EtcdPipelineInfo.State = PIPELINE_FAILURE, Reason = ''image pull'',
                               JobCounts = None, LastJobState = JOB_FAILURE\<rparr>],
      put_error = (\<lambda>_. None)\<rparr>
     ''edges'' [PIPELINE_FAILURE] PIPELINE_RUNNING ''''
   = (None,
      \<lparr>rows = [''edges'' \<mapsto> \<lparr>EtcdPipelineInfo.State = PIPELINE_FAILURE, Reason = ''image pull'',
                               JobCounts = None, LastJobState = JOB_FAILURE\<rparr>],
       put_error = (\<lambda>_. None)\<rparr>)"
  by (rule SetPipelineState_FAILURE_absorbing
        [where info = "\<lparr>EtcdPipelineInfo.State = PIPELINE_FAILURE, Reason = ''image pull'',
                        JobCounts = None, LastJobState = JOB_FAILURE\<rparr>"]) simp_all

text \<open>
  C9: for a job whose current state is terminal (\<open>JOB_SUCCESS\<close>, \<open>JOB_FAILURE\<close> or
  \<open>JOB_KILLED\<close>), \<open>UpdateJobState\<close> returns an error and leaves the pipeline collection,
  the job collection and the job record as they were.
\<close>
theorem UpdateJobState_terminal_rejected:
  assumes "EtcdJobInfo.State jobPtr = JOB_SUCCESS \<or> EtcdJobInfo.State jobPtr = JOB_FAILURE
           \<or> EtcdJobInfo.State jobPtr = JOB_KILLED"
  shows "UpdateJobState pipelines jobs jobPtr state reason now =
           Return (Some (TerminalState (Job.ID (Job jobPtr)) state (EtcdJobInfo.State jobPtr)),
                   pipelines, jobs, jobPtr)"
  using assms by (auto simp: UpdateJobState_def)

theorem UpdateJobState_terminal_rejected_witness:
  "UpdateJobState
     \<lparr>rows = Map.empty, put_error = (\<lambda>_. None)\<rparr>
     \<lparr>rows = Map.empty, put_error = (\<lambda>_. None)\<rparr>
     \<lparr>Job = \<lparr>Job.ID = ''j1''\<rparr>, Pipeline = \<lparr>Pipeline.Name = ''edges''\<rparr>,
      EtcdJobInfo.State = JOB_KILLED, Reason = ''killed'', Started = None, Finished = None\<rparr>
     JOB_RUNNING ''retry'' (Inr \<lparr>seconds = 7\<rparr>)
   = Return (Some (TerminalState ''j1'' JOB_RUNNING JOB_KILLED),
             \<lparr>rows = Map.empty, put_error = (\<lambda>_. None)\<rparr>,
             \<lparr>rows = Map.empty, put_error = (\<lambda>_. None)\<rparr>,
             \<lparr>Job = \<lparr>Job.ID = ''j1''\<rparr>, Pipeline = \<lparr>Pipeline.Name = ''edges''\<rparr>,
              EtcdJobInfo.State = JOB_KILLED, Reason = ''killed'', Started = None, Finished = None\<rparr>)"
  using UpdateJobState_terminal_rejected
    [where jobPtr = "\<lparr>Job = \<lparr>Job.ID = ''j1''\<rparr>, Pipeline = \<lparr>Pipeline.Name = ''edges''\<rparr>,
          EtcdJobInfo.State = JOB_KILLED, Reason = ''killed'', Started = None, Finished = None\<rparr>"
       and pipelines = "\<lparr>rows = Map.empty, put_error = (\<lambda>_. None)\<rparr>"
       and jobs = "\<lparr>rows = Map.empty, put_error = (\<lambda>_. None)\<rparr>"
       and state = JOB_RUNNING and reason = "''retry''" and now = "Inr \<lparr>seconds = 7\<rparr>"]
  by simp

text \<open>
  C10: a request whose repo is named as the reserved fileset repo gets an error from
  \<open>CreateRepoInTransaction\<close>, whatever the driver is, with the transaction state
  untouched; every other request (no repo, or a repo of another name) gets exactly what
  the driver's \<open>createRepo\<close> returns for the request's repo, description and update flag.
\<close>
theorem CreateRepoInTransaction_reserved_name:
  "(CreateRepoRequest.Repo request = Some repo \<and> Repo.Name repo = fileSetsRepo \<longrightarrow>
      CreateRepoInTransaction fileSetsRepo driver_createRepo request txnCtx
        = (Some (ReservedName fileSetsRepo), txnCtx))
   \<and> ((CreateRepoRequest.Repo request = None
        \<or> (CreateRepoRequest.Repo request = Some repo \<and> Repo.Name repo \<noteq> fileSetsRepo)) \<longrightarrow>
      CreateRepoInTransaction fileSetsRepo driver_createRepo request txnCtx
        = driver_createRepo (CreateRepoRequest.Repo request) (Description request)
            (Update request) txnCtx)"
  by (auto simp: CreateRepoInTransaction_def)

theorem CreateRepoInTransaction_reserved_name_witness:
  "CreateRepoInTransaction ''__filesets__'' (\<lambda>repo description update n. (None, Suc n))
     \<lparr>Repo = Some \<lparr>Repo.Name = ''__filesets__''\<rparr>, Description = ''d'', Update = False\<rparr> (0::nat)
     = (Some (ReservedName ''__filesets__''), 0)
   \<and> CreateRepoInTransaction ''__filesets__'' (\<lambda>repo description update n. (None, Suc n))
     \<lparr>Repo = Some \<lparr>Repo.Name = ''images''\<rparr>, Description = ''d'', Update = False\<rparr> (0::nat)
     = (None, 1)"
  using CreateRepoInTransaction_reserved_name
    [where request = "\<lparr>Repo = Some \<lparr>Repo.Name = ''__filesets__''\<rparr>, Description = ''d'', Update = False\<rparr>"
       and repo = "\<lparr>Repo.Name = ''__filesets__''\<rparr>" and fileSetsRepo = "''__filesets__''"
       and driver_createRepo = "\<lambda>repo description update n. (None, Suc n)" and txnCtx = "0::nat"]
    CreateRepoInTransaction_reserved_name
    [where request = "\<lparr>Repo = Some \<lparr>Repo.Name = ''images''\<rparr>, Description = ''d'', Update = False\<rparr>"
       and repo = "\<lparr>Repo.Name = ''images''\<rparr>" and fileSetsRepo = "''__filesets__''"
       and driver_createRepo = "\<lambda>repo description update n. (None, Suc n)" and txnCtx = "0::nat"]
  by simp

subsection \<open>Fileset IDs and the compaction envelope\<close>

lemma parse_inputs_Inr:
  "parse_inputs parse inputs ids = Inr r \<Longrightarrow> s \<in> set inputs \<Longrightarrow> \<exists>i. parse s = Inr i"
proof (induction inputs arbitrary: ids)
  case Nil
  then show ?case by simp
next
  case (Cons a inputs)
  then show ?case by (auto split: sum.splits)
qed

lemma parse_inputs_Inl:
  assumes "parse s = Inl err" and "s \<in> set inputs"
  shows "\<exists>e. parse_inputs parse inputs ids = Inl e"
proof (cases "parse_inputs parse inputs ids")
  case (Inl e)
  then show ?thesis by blast
next
  case (Inr r)
  from parse_inputs_Inr [OF Inr assms(2)] assms(1) show ?thesis by simp
qed

text \<open>
  C6: for a string that \<open>fileset.ParseID\<close> cannot parse, \<open>AddFileset\<close> and \<open>RenewFileset\<close>
  return the parse error with the driver's state untouched, whatever the driver operation
  is; and the compaction worker fails a task one of whose serialized input IDs does not
  parse, with the storage state untouched, whatever \<open>storage.Compact\<close> is.
\<close>
theorem unparseable_fileset_ID_rejected:
  assumes "ParseID d s = Inl err"
  shows "AddFileset (ParseID d) driver_addFileset \<lparr>Commit = c, FilesetId = s\<rparr> st = (Inl err, st)
     \<and> RenewFileset (ParseID d) driver_renewFileset \<lparr>FilesetId = s, TtlSeconds = ttl\<rparr> st2
          = (Inl err, st2)
     \<and> (deserializeCompactionTask (taskProto d) (Data subtask) = Inr task
          \<and> s \<in> set (CompactionTask.Inputs task) \<longrightarrow>
        (\<exists>e. compactionWorker_task d storage_Compact subtask st3 = (Inl e, st3)))"
proof (intro conjI impI)
  show "AddFileset (ParseID d) driver_addFileset \<lparr>Commit = c, FilesetId = s\<rparr> st = (Inl err, st)"
    using assms by (simp add: AddFileset_def)
  show "RenewFileset (ParseID d) driver_renewFileset \<lparr>FilesetId = s, TtlSeconds = ttl\<rparr> st2
          = (Inl err, st2)"
    using assms by (simp add: RenewFileset_def)
next
  assume a: "deserializeCompactionTask (taskProto d) (Data subtask) = Inr task
             \<and> s \<in> set (CompactionTask.Inputs task)"
  then obtain e where "parse_inputs (ParseID d) (CompactionTask.Inputs task) [] = Inl e"
    using parse_inputs_Inl [of "ParseID d" s err] assms by blast
  with a show "\<exists>e. compactionWorker_task d storage_Compact subtask st3 = (Inl e, st3)"
    by (simp add: compactionWorker_task_def)
qed

theorem unparseable_fileset_ID_rejected_witness:
  "ParseID sample_driver ''zz'' = Inl (External ''invalid fileset id'')
   \<and> AddFileset (ParseID sample_driver) (\<lambda>c i n. (None, Suc n))
        \<lparr>Commit = \<lparr>Commit.Repo = \<lparr>Repo.Name = ''images''\<rparr>, Commit.ID = ''c1''\<rparr>,
         FilesetId = ''zz''\<rparr> (0::nat)
       = (Inl (External ''invalid fileset id''), 0)
   \<and> RenewFileset (ParseID sample_driver) (\<lambda>i ttl n. (None, Suc n))
        \<lparr>FilesetId = ''zz'', TtlSeconds = 60\<rparr> (0::nat)
       = (Inl (External ''invalid fileset id''), 0)
   \<and> (\<exists>e. compactionWorker_task sample_driver (\<lambda>ids ttl range n. (Inr 9, Suc n))
              \<lparr>Data = \<lparr>TypeUrl = ''/pfs.CompactionTask'', Value = [1]\<rparr>\<rparr> (0::nat)
            = (Inl e, 0))"
proof -
  have p: "ParseID sample_driver ''zz'' = Inl (External ''invalid fileset id'')"
    by (simp add: sample_driver_def)
  have t: "deserializeCompactionTask (taskProto sample_driver)
             (Data \<lparr>Data = \<lparr>TypeUrl = ''/pfs.CompactionTask'', Value = [1]\<rparr>\<rparr>)
           = Inr \<lparr>CompactionTask.Inputs = [''aa'', ''zz''],
                  Range = \<lparr>PathRange.Lower = ''/a'', PathRange.Upper = ''/m''\<rparr>\<rparr>"
    by (simp add: sample_driver_def sample_taskProto_def deserializeCompactionTask_def
        UnmarshalAny_def AnyMessageName_def)
  show ?thesis
    using p t
      unparseable_fileset_ID_rejected
        [OF p, where driver_addFileset = "\<lambda>c i n. (None, Suc n)"
           and c = "\<lparr>Commit.Repo = \<lparr>Repo.Name = ''images''\<rparr>, Commit.ID = ''c1''\<rparr>"
           and st = "0::nat"
           and driver_renewFileset = "\<lambda>i ttl n. (None, Suc n)" and ttl = 60 and ?st2.0 = "0::nat"
           and subtask = "\<lparr>Data = \<lparr>TypeUrl = ''/pfs.CompactionTask'', Value = [1]\<rparr>\<rparr>"
           and task = "\<lparr>CompactionTask.Inputs = [''aa'', ''zz''],
                         Range = \<lparr>PathRange.Lower = ''/a'', PathRange.Upper = ''/m''\<rparr>\<rparr>"
           and storage_Compact = "\<lambda>ids ttl range n. (Inr 9, Suc n)" and ?st3.0 = "0::nat"]
    by simp
qed

lemma takeWhile_until_last:
  "x \<notin> set xs \<Longrightarrow> takeWhile (\<lambda>c. c \<noteq> x) (xs @ [x]) = xs"
  by (induction xs) auto

lemma after_last_slash:
  assumes "CHR ''/'' \<notin> set name"
  shows "rev (takeWhile (\<lambda>c. c \<noteq> CHR ''/'') (rev (CHR ''/'' # name))) = name"
  using takeWhile_until_last [of "CHR ''/''" "rev name"] assms by simp

lemma AnyMessageName_tag:
  "CHR ''/'' \<notin> set name \<Longrightarrow> AnyMessageName \<lparr>TypeUrl = CHR ''/'' # name, Value = data\<rparr> = Inr name"
  using after_last_slash [of name] by (simp add: AnyMessageName_def)

lemma UnmarshalAny_tagged:
  "CHR ''/'' \<notin> set (MessageName pb) \<Longrightarrow>
   UnmarshalAny pb \<lparr>TypeUrl = CHR ''/'' # MessageName pb, Value = data\<rparr> = Unmarshal pb data"
  by (simp add: UnmarshalAny_def AnyMessageName_tag)

text \<open>
  C2: where the protobuf codec of a message reads back what it wrote and the message's
  registered name contains no \<open>/\<close>, serializing a \<open>CompactionTask\<close> \<open>t\<close> gives an envelope
  that deserializes to \<open>t\<close>, and serializing a \<open>CompactionTaskResult\<close> \<open>r\<close> gives an envelope
  that deserializes to \<open>r\<close>; the envelope's type tag is \<open>/\<close> followed by the message's
  name, and reading the tag gives that name back.
\<close>
theorem compaction_envelope_roundtrip:
  assumes "CHR ''/'' \<notin> set (MessageName tp)" and "CHR ''/'' \<notin> set (MessageName rp)"
    and "Marshal tp t = Inr tdata" and "Unmarshal tp tdata = Inr t"
    and "Marshal rp r = Inr rdata" and "Unmarshal rp rdata = Inr r"
  shows "serializeCompactionTask tp t = Inr \<lparr>TypeUrl = ''/'' @ MessageName tp, Value = tdata\<rparr>
     \<and> deserializeCompactionTask tp \<lparr>TypeUrl = ''/'' @ MessageName tp, Value = tdata\<rparr> = Inr t
     \<and> AnyMessageName \<lparr>TypeUrl = ''/'' @ MessageName tp, Value = tdata\<rparr> = Inr (MessageName tp)
     \<and> serializeCompactionResult rp r = Inr \<lparr>TypeUrl = ''/'' @ MessageName rp, Value = rdata\<rparr>
     \<and> deserializeCompactionResult rp \<lparr>TypeUrl = ''/'' @ MessageName rp, Value = rdata\<rparr> = Inr r
     \<and> AnyMessageName \<lparr>TypeUrl = ''/'' @ MessageName rp, Value = rdata\<rparr> = Inr (MessageName rp)"
  using assms
  by (simp add: serializeCompactionTask_def deserializeCompactionTask_def
      serializeCompactionResult_def deserializeCompactionResult_def
      UnmarshalAny_tagged AnyMessageName_tag)

theorem compaction_envelope_roundtrip_witness:
  "serializeCompactionTask sample_taskProto
     \<lparr>CompactionTask.Inputs = [''aa'', ''a''],
      Range = \<lparr>PathRange.Lower = ''/a'', PathRange.Upper = ''/m''\<rparr>\<rparr>
     = Inr \<lparr>TypeUrl = ''/pfs.CompactionTask'', Value = [2]\<rparr>
   \<and> deserializeCompactionTask sample_taskProto
       \<lparr>TypeUrl = ''/pfs.CompactionTask'', Value = [2]\<rparr>
     = Inr \<lparr>CompactionTask.Inputs = [''aa'', ''a''],
            Range = \<lparr>PathRange.Lower = ''/a'', PathRange.Upper = ''/m''\<rparr>\<rparr>
   \<and> serializeCompactionResult sample_resultProto \<lparr>Id = ''f0f''\<rparr>
     = Inr \<lparr>TypeUrl = ''/pfs.CompactionTaskResult'', Value = [1, 0, 1]\<rparr>
   \<and> deserializeCompactionResult sample_resultProto
       \<lparr>TypeUrl = ''/pfs.CompactionTaskResult'', Value = [1, 0, 1]\<rparr>
     = Inr \<lparr>Id = ''f0f''\<rparr>"
proof -
  have n: "MessageName sample_taskProto = ''pfs.CompactionTask''"
    "MessageName sample_resultProto = ''pfs.CompactionTaskResult''"
    by (simp_all add: sample_taskProto_def sample_resultProto_def)
  have c: "Marshal sample_taskProto
             \<lparr>CompactionTask.Inputs = [''aa'', ''a''],
              Range = \<lparr>PathRange.Lower = ''/a'', PathRange.Upper = ''/m''\<rparr>\<rparr> = Inr [2]"
    "Unmarshal sample_taskProto [2]
       = Inr \<lparr>CompactionTask.Inputs = [''aa'', ''a''],
              Range = \<lparr>PathRange.Lower = ''/a'', PathRange.Upper = ''/m''\<rparr>\<rparr>"
    "Marshal sample_resultProto \<lparr>Id = ''f0f''\<rparr> = Inr [1, 0, 1]"
    "Unmarshal sample_resultProto [1, 0, 1] = Inr \<lparr>Id = ''f0f''\<rparr>"
    by (simp_all add: sample_taskProto_def sample_resultProto_def)
  show ?thesis
    using compaction_envelope_roundtrip
      [where tp = sample_taskProto and rp = sample_resultProto, OF _ _ c]
    by (simp add: n)
qed

subsection \<open>Failure of a compaction\<close>

lemma collect_reports_None:
  "collect_reports infos cb s = (None, s') \<Longrightarrow> info \<in> set infos \<Longrightarrow>
   Failure info = None \<and> (\<exists>s0 s1. cb info s0 = (None, s1))"
proof (induction infos arbitrary: s)
  case Nil
  then show ?case by simp
next
  case (Cons a infos)
  then show ?case
    by (auto split: option.splits prod.splits)
qed

lemma collect_result_None:
  "collect_result d info results = (None, results') \<Longrightarrow> Result info \<noteq> None"
  by (auto simp: collect_result_def split: option.splits)

lemma collect_reports_bad:
  assumes "info \<in> set infos" and "Failure info \<noteq> None \<or> Result info = None"
  shows "\<exists>err s'. collect_reports infos (collect_result d) s = (Some err, s')"
proof (cases "collect_reports infos (collect_result d) s")
  case (Pair e s')
  show ?thesis
  proof (cases e)
    case None
    with Pair collect_reports_None [of infos "collect_result d" s s' info] assms
    show ?thesis by (auto dest: collect_result_None)
  next
    case (Some err)
    with Pair show ?thesis by simp
  qed
qed

lemma workerFunc_bad:
  assumes "info \<in> set (subtask_reports d ids)"
    and "Failure info \<noteq> None \<or> Result info = None"
  shows "\<exists>err. workerFunc d (queue_master (compactionQueue d)) (shard (storage d) (StorageCompactionMaxFanIn d) ids) = Inl err"
proof (cases "workTasks_of d (shard (storage d) (StorageCompactionMaxFanIn d) ids)")
  case (Inl e)
  then show ?thesis by (simp add: workerFunc_def)
next
  case (Inr workTasks)
  with assms(1) have "info \<in> set (reports (queue_master (compactionQueue d)) workTasks)"
    by (simp add: subtask_reports_def)
  from collect_reports_bad [OF this assms(2), of d "[]"] Inr show ?thesis
    by (auto simp: workerFunc_def RunSubtasks_def)
qed

lemma compact_unfold:
  "compact d ids =
     (case DistributedCompactor_Compact (storage d) (StorageCompactionMaxFanIn d)
             (workerFunc d (queue_master (compactionQueue d))) ids (defaultTTL d) of
        (id', Some err) \<Rightarrow> (None, Some err)
      | (id', None) \<Rightarrow> (id', None))"
  by (simp add: compact_def CompactLevelBased_def compact_callback_def RunTaskBlock_def
      split: prod.splits option.splits)

text \<open>
  C1: in every run of \<open>compact\<close>, if one of the subtask reports is a failure or carries no
  result, \<open>compact\<close> returns an error and no fileset ID; and in every run \<open>compact\<close> returns
  either a fileset ID with no error or an error with no fileset ID.
\<close>
theorem compact_all_or_nothing:
  "((\<exists>info \<in> set (subtask_reports d ids). Failure info \<noteq> None \<or> Result info = None) \<longrightarrow>
      (\<exists>err. compact d ids = (None, Some err)))
   \<and> ((\<exists>id'. compact d ids = (Some id', None)) \<or> (\<exists>err. compact d ids = (None, Some err)))"
proof (intro conjI impI)
  assume "\<exists>info \<in> set (subtask_reports d ids). Failure info \<noteq> None \<or> Result info = None"
  then obtain err where
    "workerFunc d (queue_master (compactionQueue d)) (shard (storage d) (StorageCompactionMaxFanIn d) ids) = Inl err"
    using workerFunc_bad by blast
  then show "\<exists>err. compact d ids = (None, Some err)"
    by (simp add: compact_unfold DistributedCompactor_Compact_def)
next
  show "(\<exists>id'. compact d ids = (Some id', None)) \<or> (\<exists>err. compact d ids = (None, Some err))"
    by (simp add: compact_unfold DistributedCompactor_Compact_def split: sum.splits)
qed

theorem compact_all_or_nothing_witness:
  "(\<exists>info \<in> set (subtask_reports sample_driver [1, 2]). Failure info \<noteq> None \<or> Result info = None)
   \<and> (\<exists>err. compact sample_driver [1, 2] = (None, Some err))"
proof -
  have h: "\<exists>info \<in> set (subtask_reports sample_driver [1, 2]).
             Failure info \<noteq> None \<or> Result info = None"
    by (simp add: sample_driver_def sample_taskProto_def subtask_reports_def
        serializeCompactionTask_def)
  show ?thesis
    using h compact_all_or_nothing [where d = sample_driver and ids = "[1, 2]"]
    by blast
qed

subsection \<open>The fileset reader\<close>

lemma getDataRefs_loop_concat:
  "getDataRefs_loop parts acc = acc @ concat (map DataRefs parts)"
  by (induction parts arbitrary: acc) auto

lemma getDataRefs_concat: "getDataRefs parts = concat (map DataRefs parts)"
  by (simp add: getDataRefs_def getDataRefs_loop_concat)

lemma read_DataRef_readable:
  "readable ch dataRef \<Longrightarrow> read_DataRef ch dataRef = Inr (referenced_bytes ch dataRef)"
  by (auto simp: readable_def read_DataRef_def referenced_bytes_def split: option.splits)

lemma chunk_Reader_Get_readable:
  "list_all (readable ch) dataRefs \<Longrightarrow>
   chunk_Reader_Get ch dataRefs w = (None, w @ concat (map (referenced_bytes ch) dataRefs))"
  by (induction dataRefs arbitrary: w) (auto simp: read_DataRef_readable)

text \<open>
  C5: for a file entry with index record \<open>i\<close>, \<open>Content\<close> does to the writer what the
  chunk-store reader over the data references of the parts of \<open>i\<close>, part after part,
  does; where the chunk store can read all of them, \<open>Content\<close> returns no error and
  appends to the writer exactly their referenced byte ranges, in order.
\<close>
theorem Content_concatenates_ranges:
  assumes "cells h (idx fr) = Some i"
  shows "Content fr h w =
           Return (chunk_Reader_Get (FileReader.chunks fr)
                     (concat (map DataRefs (Parts (File i)))) w)
     \<and> (list_all (readable (FileReader.chunks fr)) (concat (map DataRefs (Parts (File i)))) \<longrightarrow>
        Content fr h w =
           Return (None, w @ concat (map (referenced_bytes (FileReader.chunks fr))
                                      (concat (map DataRefs (Parts (File i)))))))"
  using assms by (simp add: Content_def getDataRefs_concat chunk_Reader_Get_readable)

theorem Content_concatenates_ranges_witness:
  "cells \<lparr>cells = [0 \<mapsto> sample_file], fresh = 1\<rparr> (idx \<lparr>FileReader.chunks = sample_chunks, idx = 0\<rparr>)
     = Some sample_file
   \<and> list_all (readable sample_chunks) (concat (map DataRefs (Parts (File sample_file))))
   \<and> Content \<lparr>FileReader.chunks = sample_chunks, idx = 0\<rparr>
         \<lparr>cells = [0 \<mapsto> sample_file], fresh = 1\<rparr> [7]
       = Return (None, [7, 11, 12, 10])"
proof -
  have c: "cells \<lparr>cells = [0 \<mapsto> sample_file], fresh = 1\<rparr>
             (idx \<lparr>FileReader.chunks = sample_chunks, idx = 0\<rparr>) = Some sample_file"
    by simp
  have r: "list_all (readable sample_chunks) (concat (map DataRefs (Parts (File sample_file))))"
    by (simp add: sample_file_def sample_ref_def sample_chunks_def readable_def)
  have b: "concat (map (referenced_bytes sample_chunks)
                     (concat (map DataRefs (Parts (File sample_file))))) = [11, 12, 10]"
    by (simp add: sample_file_def sample_ref_def sample_chunks_def referenced_bytes_def)
  show ?thesis
    using c r b
      Content_concatenates_ranges [OF c, where w = "[7]", THEN conjunct2]
    by simp
qed

text \<open>
  C4: \<open>Index()\<close> returns a pointer to a new record that equals the entry's index record.
  After any assignment through the returned pointer, a later \<open>Index()\<close> on the same entry
  still returns a record equal to the original, and \<open>Content\<close> does what it did before.
\<close>
theorem Index_is_deep_clone:
  assumes "idx fr < fresh h"
  shows "fst (FileReader_Index fr h) \<noteq> idx fr
     \<and> cells (snd (FileReader_Index fr h)) (fst (FileReader_Index fr h)) = cells h (idx fr)
     \<and> cells (snd (FileReader_Index fr
                     (mutate (snd (FileReader_Index fr h)) (fst (FileReader_Index fr h)) v)))
              (fst (FileReader_Index fr
                     (mutate (snd (FileReader_Index fr h)) (fst (FileReader_Index fr h)) v)))
         = cells h (idx fr)
     \<and> Content fr (mutate (snd (FileReader_Index fr h)) (fst (FileReader_Index fr h)) v) w
         = Content fr h w"
  using assms
  by (simp add: FileReader_Index_def proto_Clone_def alloc_def mutate_def Content_def)

theorem Index_is_deep_clone_witness:
  "(0::nat) < fresh \<lparr>cells = [0 \<mapsto> sample_file], fresh = 1\<rparr>
   \<and> FileReader_Index \<lparr>FileReader.chunks = sample_chunks, idx = 0\<rparr>
        \<lparr>cells = [0 \<mapsto> sample_file], fresh = 1\<rparr>
       = (1, \<lparr>cells = [0 \<mapsto> sample_file, 1 \<mapsto> sample_file], fresh = 2\<rparr>)
   \<and> cells (snd (FileReader_Index \<lparr>FileReader.chunks = sample_chunks, idx = 0\<rparr>
                   (mutate \<lparr>cells = [0 \<mapsto> sample_file, 1 \<mapsto> sample_file], fresh = 2\<rparr>
                      1 sample_tombstone)))
            (fst (FileReader_Index \<lparr>FileReader.chunks = sample_chunks, idx = 0\<rparr>
                   (mutate \<lparr>cells = [0 \<mapsto> sample_file, 1 \<mapsto> sample_file], fresh = 2\<rparr>
                      1 sample_tombstone)))
       = Some sample_file
   \<and> Content \<lparr>FileReader.chunks = sample_chunks, idx = 0\<rparr>
        (mutate \<lparr>cells = [0 \<mapsto> sample_file, 1 \<mapsto> sample_file], fresh = 2\<rparr> 1 sample_tombstone) []
       = Content \<lparr>FileReader.chunks = sample_chunks, idx = 0\<rparr>
           \<lparr>cells = [0 \<mapsto> sample_file], fresh = 1\<rparr> []"
proof -
  have f: "FileReader_Index \<lparr>FileReader.chunks = sample_chunks, idx = 0\<rparr>
             \<lparr>cells = [0 \<mapsto> sample_file], fresh = 1\<rparr>
       = (1, \<lparr>cells = [0 \<mapsto> sample_file, 1 \<mapsto> sample_file], fresh = 2\<rparr>)"
    by (simp add: FileReader_Index_def proto_Clone_def alloc_def)
  show ?thesis
    using f Index_is_deep_clone
      [where fr = "\<lparr>FileReader.chunks = sample_chunks, idx = 0\<rparr>"
         and h = "\<lparr>cells = [0 \<mapsto> sample_file], fresh = 1\<rparr>"
         and v = sample_tombstone and w = "[]"]
    by simp
qed

lemma index_Iterate_log:
  "\<exists>h'. index_Iterate es
           (\<lambda>p hs1. case newFileReader ch p (fst hs1) of
                       (fr, h') \<Rightarrow> (None, h', snd hs1 @ [cells h' (idx fr)]))
           (h, log) = (None, h', log @ map Some es)"
proof (induction es arbitrary: h log)
  case Nil
  then show ?case by simp
next
  case (Cons e es)
  let ?cb = "\<lambda>p hs1. case newFileReader ch p (fst hs1) of
                       (fr, h') \<Rightarrow> (None, h', snd hs1 @ [cells h' (idx fr)])"
  obtain p h1 where a: "alloc h (Some e) = (p, h1)"
    by (cases "alloc h (Some e)")
  obtain fr h2 where n: "newFileReader ch p h1 = (fr, h2)"
    by (cases "newFileReader ch p h1")
  have c: "cells h2 (idx fr) = Some e"
    using a n by (auto simp: alloc_def newFileReader_def proto_Clone_def)
  from Cons.IH [of h2 "log @ [Some e]"] obtain h' where
    "index_Iterate es ?cb (h2, log @ [Some e]) = (None, h', (log @ [Some e]) @ map Some es)"
    by blast
  then have "index_Iterate (e # es) ?cb (h, log) = (None, h', log @ map Some (e # es))"
    using a n c by simp
  then show ?case by blast
qed

lemma Iterate_after_setup:
  assumes "Reader_setup index_NewReader r = (None, r')"
    and "additive r' = Some a" and "deletive r' = Some dl"
  shows "Iterate index_NewReader r cb flag hs =
           Return (case index_Iterate
                          (entries (if length flag > 0 \<and> flag ! 0 then dl else a))
                          (\<lambda>p hs1. case newFileReader (Reader.chunks r') p (fst hs1) of
                                      (fr, h') \<Rightarrow> cb fr (h', snd hs1))
                          hs of
                     (err, hs') \<Rightarrow> (err, r', hs'))"
  using assms by (simp add: Iterate_def split: prod.splits)

lemma Iterate_setup_error:
  "Reader_setup index_NewReader r = (Some err, r') \<Longrightarrow>
   Iterate index_NewReader r cb flag hs = Return (Some err, r', hs)"
  by (simp add: Iterate_def)

text \<open>
  C3: on a reader whose setup succeeds, \<open>Iterate\<close> runs the callback over file readers
  for the entries of the deletive index when the optional argument is present and its
  first value is true, and over the entries of the additive index otherwise; a callback
  that records the record behind each file reader it is given records exactly the
  entries of that index, in order.
\<close>
theorem Iterate_selects_index:
  assumes "Reader_setup index_NewReader r = (None, r')"
    and "additive r' = Some a" and "deletive r' = Some dl"
  shows "Iterate index_NewReader r cb flag hs =
           Return (case index_Iterate
                          (entries (if length flag > 0 \<and> flag ! 0 then dl else a))
                          (\<lambda>p hs1. case newFileReader (Reader.chunks r') p (fst hs1) of
                                      (fr, h') \<Rightarrow> cb fr (h', snd hs1))
                          hs of
                     (err, hs') \<Rightarrow> (err, r', hs'))
     \<and> (\<exists>h'. Iterate index_NewReader r
                (\<lambda>fr hs1. (None, fst hs1, snd hs1 @ [cells (fst hs1) (idx fr)])) flag (h, log)
              = Return (None, r', h',
                        log @ map Some (entries (if length flag > 0 \<and> flag ! 0 then dl else a))))"
proof
  show "Iterate index_NewReader r cb flag hs =
           Return (case index_Iterate
                          (entries (if length flag > 0 \<and> flag ! 0 then dl else a))
                          (\<lambda>p hs1. case newFileReader (Reader.chunks r') p (fst hs1) of
                                      (fr, h') \<Rightarrow> cb fr (h', snd hs1))
                          hs of
                     (err, hs') \<Rightarrow> (err, r', hs'))"
    by (rule Iterate_after_setup [OF assms])
next
  let ?es = "entries (if length flag > 0 \<and> flag ! 0 then dl else a)"
  obtain h' where
    "index_Iterate ?es
           (\<lambda>p hs1. case newFileReader (Reader.chunks r') p (fst hs1) of
                       (fr, h') \<Rightarrow> (None, h', snd hs1 @ [cells h' (idx fr)]))
           (h, log)
     = (None, h', log @ map Some ?es)"
    using index_Iterate_log by blast
  then have "Iterate index_NewReader r
                (\<lambda>fr hs1. (None, fst hs1, snd hs1 @ [cells (fst hs1) (idx fr)])) flag (h, log)
              = Return (None, r', h', log @ map Some ?es)"
    by (simp add: Iterate_after_setup [OF assms])
  then show "\<exists>h'. Iterate index_NewReader r
                (\<lambda>fr hs1. (None, fst hs1, snd hs1 @ [cells (fst hs1) (idx fr)])) flag (h, log)
              = Return (None, r', h', log @ map Some ?es)"
    by blast
qed

theorem Iterate_selects_index_witness:
  "Reader_setup (\<lambda>ch top opts. \<lparr>entries = top\<rparr>) sample_Reader
     = (None, sample_Reader\<lparr>additive := Some \<lparr>entries = [sample_file]\<rparr>,
                            deletive := Some \<lparr>entries = [sample_tombstone]\<rparr>\<rparr>)
   \<and> (\<exists>h'. Iterate (\<lambda>ch top opts. \<lparr>entries = top\<rparr>) sample_Reader
             (\<lambda>fr hs1. (None, fst hs1, snd hs1 @ [cells (fst hs1) (idx fr)])) [True]
             (\<lparr>cells = Map.empty, fresh = 0\<rparr>, [])
          = Return (None,
                    sample_Reader\<lparr>additive := Some \<lparr>entries = [sample_file]\<rparr>,
                                   deletive := Some \<lparr>entries = [sample_tombstone]\<rparr>\<rparr>,
                    h', [Some sample_tombstone]))
   \<and> (\<exists>h'. Iterate (\<lambda>ch top opts. \<lparr>entries = top\<rparr>) sample_Reader
             (\<lambda>fr hs1. (None, fst hs1, snd hs1 @ [cells (fst hs1) (idx fr)])) []
             (\<lparr>cells = Map.empty, fresh = 0\<rparr>, [])
          = Return (None,
                    sample_Reader\<lparr>additive := Some \<lparr>entries = [sample_file]\<rparr>,
                                   deletive := Some \<lparr>entries = [sample_tombstone]\<rparr>\<rparr>,
                    h', [Some sample_file]))"
proof -
  let ?r' = "sample_Reader\<lparr>additive := Some \<lparr>entries = [sample_file]\<rparr>,
                            deletive := Some \<lparr>entries = [sample_tombstone]\<rparr>\<rparr>"
  have s: "Reader_setup (\<lambda>ch top opts. \<lparr>entries = top\<rparr>) sample_Reader = (None, ?r')"
    by (simp add: Reader_setup_def sample_Reader_def newReader_def)
  have a: "additive ?r' = Some \<lparr>entries = [sample_file]\<rparr>"
    by simp
  have d: "deletive ?r' = Some \<lparr>entries = [sample_tombstone]\<rparr>"
    by simp
  have t: "\<exists>h'. Iterate (\<lambda>ch top opts. \<lparr>entries = top\<rparr>) sample_Reader
             (\<lambda>fr hs1. (None, fst hs1, snd hs1 @ [cells (fst hs1) (idx fr)])) [True]
             (\<lparr>cells = Map.empty, fresh = 0\<rparr>, [])
          = Return (None, ?r', h', [Some sample_tombstone])"
    using Iterate_selects_index [OF s a d, where flag = "[True]"
        and h = "\<lparr>cells = Map.empty, fresh = 0\<rparr>" and log = "[]", THEN conjunct2]
    by simp
  have f: "\<exists>h'. Iterate (\<lambda>ch top opts. \<lparr>entries = top\<rparr>) sample_Reader
             (\<lambda>fr hs1. (None, fst hs1, snd hs1 @ [cells (fst hs1) (idx fr)])) []
             (\<lparr>cells = Map.empty, fresh = 0\<rparr>, [])
          = Return (None, ?r', h', [Some sample_file])"
    using Iterate_selects_index [OF s a d, where flag = "[]"
        and h = "\<lparr>cells = Map.empty, fresh = 0\<rparr>" and log = "[]", THEN conjunct2]
    by simp
  show ?thesis
    using s t f by blast
qed

end
